theory Spec2Isabelle
  imports Main "HOL-Library.Multiset"
begin

section \<open>Python values, truthiness and \<open>json.dumps\<close>\<close>

text \<open>
  The service moves untyped Python values (\<open>Dict[str, Any]\<close>) between the request layer and
  the SQL statements. A value is \<open>None\<close>, a bool, an int, a float, a str, a list or a dict
  (an association list in insertion order, keys distinct). A float is identified by its
  \<open>repr\<close>: \<open>nan\<close>, \<open>inf\<close> or \<open>-inf\<close> for the three non-finite floats, and
  for a finite float its decimal text (digits, a point, an exponent with its sign), which
  is what \<open>json.dumps\<close> writes for it. A str is a list of 8-bit characters.
\<close>

datatype pyval =
    PNone
  | PBool bool
  | PInt int
  | PFloat string
  | PStr string
  | PList "pyval list"
  | PDict "(string \<times> pyval) list"

definition nonfinite :: "string \<Rightarrow> bool" where
  "nonfinite r = (r = ''nan'' \<or> r = ''inf'' \<or> r = ''-inf'')"

definition finite_float :: "string \<Rightarrow> bool" where
  "finite_float r = (r \<noteq> [] \<and> list_all (\<lambda>c. c \<in> set ''0123456789.e+-'') r)"

definition float_repr :: "string \<Rightarrow> bool" where
  "float_repr r = (finite_float r \<or> nonfinite r)"

text \<open>Every \<open>raise\<close> of the source and of the libraries it calls is a value.\<close>

datatype error =
    MySQLError string
  | KeyError string
  | NotImplementedError string
  | AttributeError string
  | NameError string
  | HTTPException nat string
  | RequestValidationError string

definition try_bind :: "error + 'a \<Rightarrow> ('a \<Rightarrow> error + 'b) \<Rightarrow> error + 'b" where
  "try_bind r f = (case r of Inl e \<Rightarrow> Inl e | Inr v \<Rightarrow> f v)"

text \<open>Python's truth value of an object, as tested by \<open>if x:\<close>, \<open>not x\<close> and \<open>x or y\<close>.\<close>

fun truthy :: "pyval \<Rightarrow> bool" where
  "truthy PNone = False"
| "truthy (PBool b) = b"
| "truthy (PInt i) = (i \<noteq> 0)"
| "truthy (PFloat r) = (r \<noteq> ''0.0'' \<and> r \<noteq> ''-0.0'')"
| "truthy (PStr s) = (s \<noteq> [])"
| "truthy (PList xs) = (xs \<noteq> [])"
| "truthy (PDict kvs) = (kvs \<noteq> [])"

text \<open>An \<open>Optional[T]\<close> argument as the value Python sees.\<close>

fun opt_pyval :: "('a \<Rightarrow> pyval) \<Rightarrow> 'a option \<Rightarrow> pyval" where
  "opt_pyval f None = PNone"
| "opt_pyval f (Some x) = f x"

text \<open>\<open>d.get(k, default)\<close> and \<open>d[k]\<close>.\<close>

definition dict_get :: "(string \<times> pyval) list \<Rightarrow> string \<Rightarrow> pyval \<Rightarrow> pyval" where
  "dict_get d k dflt = (case map_of d k of None \<Rightarrow> dflt | Some v \<Rightarrow> v)"

definition dict_item :: "(string \<times> pyval) list \<Rightarrow> string \<Rightarrow> error + pyval" where
  "dict_item d k = (case map_of d k of None \<Rightarrow> Inl (KeyError k) | Some v \<Rightarrow> Inr v)"

definition digit_char :: "nat \<Rightarrow> char" where
  "digit_char n = ''0123456789abcdef'' ! n"

function str_nat :: "nat \<Rightarrow> string" where
  "str_nat n = (if n < 10 then [digit_char n] else str_nat (n div 10) @ [digit_char (n mod 10)])"
  by pat_completeness auto
termination
  by (relation "measure id") auto

declare str_nat.simps [simp del]

definition str_int :: "int \<Rightarrow> string" where
  "str_int i = (if i < 0 then CHR ''-'' # str_nat (nat (- i)) else str_nat (nat i))"

text \<open>
  \<open>json.dumps\<close> with its defaults (\<open>ensure_ascii=True\<close>, separators \<open>', '\<close> and
  \<open>': '\<close>, \<open>allow_nan=True\<close>): the two-character escapes, and \<open>\u00XX\<close> for
  every other character outside the printable ASCII range; a non-finite float is written
  as \<open>NaN\<close>, \<open>Infinity\<close> or \<open>-Infinity\<close>, which no JSON text may hold.
\<close>

definition json_escape_char :: "char \<Rightarrow> string" where
  "json_escape_char c =
     (if c = CHR 0x22 then [CHR 0x5C, CHR 0x22]
      else if c = CHR 0x5C then [CHR 0x5C, CHR 0x5C]
      else if c = CHR 0x0A then [CHR 0x5C, CHR ''n'']
      else if c = CHR 0x0D then [CHR 0x5C, CHR ''r'']
      else if c = CHR 0x09 then [CHR 0x5C, CHR ''t'']
      else if c = CHR 0x08 then [CHR 0x5C, CHR ''b'']
      else if c = CHR 0x0C then [CHR 0x5C, CHR ''f'']
      else if 32 \<le> (of_char c :: nat) \<and> (of_char c :: nat) \<le> 126 then [c]
      else [CHR 0x5C, CHR ''u'', CHR ''0'', CHR ''0'',
            digit_char ((of_char c :: nat) div 16), digit_char ((of_char c :: nat) mod 16)])"

definition json_string :: "string \<Rightarrow> string" where
  "json_string s = [CHR 0x22] @ concat (map json_escape_char s) @ [CHR 0x22]"

fun join :: "string \<Rightarrow> string list \<Rightarrow> string" where
  "join sep [] = []"
| "join sep [x] = x"
| "join sep (x # y # ys) = x @ sep @ join sep (y # ys)"

fun json_dumps :: "pyval \<Rightarrow> string" where
  "json_dumps PNone = ''null''"
| "json_dumps (PBool b) = (if b then ''true'' else ''false'')"
| "json_dumps (PInt i) = str_int i"
| "json_dumps (PFloat r) =
     (if r = ''nan'' then ''NaN''
      else if r = ''inf'' then ''Infinity''
      else if r = ''-inf'' then ''-Infinity''
      else r)"
| "json_dumps (PStr s) = json_string s"
| "json_dumps (PList xs) = ''['' @ join '', '' (map json_dumps xs) @ '']''"
| "json_dumps (PDict kvs) =
     ''{'' @ join '', '' (map (\<lambda>(k, v). json_string k @ '': '' @ json_dumps v) kvs) @ ''}''"


section \<open>The relational store\<close>

text \<open>
  The three tables, as the SQL statements of \<open>db/model_serving_service.py\<close> use them: a
  table is the list of its rows in insertion order, with its \<open>AUTO_INCREMENT\<close> counter.
  A cell holds the Python value that was bound to the statement's parameter (\<open>PNone\<close> is
  SQL \<open>NULL\<close>); a JSON column holds the text that \<open>CAST(%s AS JSON)\<close> received, and
  the connector hands a JSON column back as that text (a \<open>str\<close>), never as a decoded list
  or dict. Timestamps are seconds on a clock. \<open>reachable\<close> says whether
  \<open>mysql.connector.connect\<close> succeeds. A \<open>WHERE col = %s\<close> compares a cell with the
  parameter for equality, and \<open>cur.rowcount\<close> is the number of rows that the
  \<open>WHERE\<close> clause of a \<open>DELETE\<close> or \<open>UPDATE\<close> matches.

  \<open>CAST(%s AS JSON)\<close> fails on a text that is not JSON, and the statement inserts or
  updates nothing. The texts that reach it are the ones \<open>json.dumps\<close> wrote and the
  literal \<open>null\<close>; what can keep such a text from being JSON is a \<open>NaN\<close> or
  \<open>Infinity\<close> token, so the check reads the text for an \<open>N\<close> or an \<open>I\<close>
  outside a string literal (no JSON text has one there).

  The DDL is not part of the repository. Modelled from the spec: the columns that an
  \<open>INSERT\<close> does not name start as \<open>NULL\<close> (the inference fields of a gesture, the
  completion fields of a prediction), and \<open>models.created_at\<close> is a server timestamp.
\<close>

record model_row =
  m_model_id :: int
  m_name :: pyval
  m_version :: pyval
  m_model_type :: pyval
  m_artifact_uri :: pyval
  m_input_shape :: pyval
  m_output_shape :: pyval
  m_status :: pyval
  m_metrics :: pyval
  m_sha256 :: pyval
  m_created_at :: nat

record gesture_row =
  g_gesture_id :: int
  g_session_id :: pyval
  g_user_id :: pyval
  g_landmarks :: pyval
  g_frame_width :: pyval
  g_frame_height :: pyval
  g_source :: pyval
  g_received_at :: nat
  g_model_id :: pyval
  g_predicted_label :: pyval
  g_confidence :: pyval
  g_probs :: pyval
  g_processing_time_ms :: pyval
  g_processed_at :: "nat option"

record prediction_row =
  p_prediction_id :: int
  p_requestor_user_id :: pyval
  p_session_id :: pyval
  p_model_id :: pyval
  p_status :: pyval
  p_params :: pyval
  p_created_at :: nat
  p_completed_at :: "nat option"
  p_output_text :: pyval
  p_confidence :: pyval
  p_latency_ms :: pyval
  p_error_message :: pyval

record database =
  reachable :: bool
  models :: "model_row list"
  models_auto_increment :: int
  gestures :: "gesture_row list"
  gestures_auto_increment :: int
  predictions :: "prediction_row list"
  predictions_auto_increment :: int

text \<open>
  \<open>AbstractBaseMySQLService.get_connection\<close>. The request layer builds a new service for
  every request, so \<open>_connection\<close> is \<open>None\<close> and \<open>connect\<close> runs: it returns
  the connection or re-raises the connector's error.
\<close>

definition get_connection :: "database \<Rightarrow> error + unit" where
  "get_connection db =
     (if reachable db then Inr () else Inl (MySQLError ''connection failed''))"

text \<open>
  The connector converts a parameter to SQL before it sends the statement: a list or a
  dict has no conversion and \<open>cur.execute\<close> raises.
\<close>

fun sql_param :: "pyval \<Rightarrow> bool" where
  "sql_param (PList xs) = False"
| "sql_param (PDict kvs) = False"
| "sql_param v = True"

definition execute_params :: "pyval list \<Rightarrow> error + unit" where
  "execute_params ps =
     (if list_all sql_param ps then Inr ()
      else Inl (MySQLError ''Failed processing format-parameters''))"

datatype json_lex_state = Outside | Inside | Escaped

fun json_lex_step :: "json_lex_state \<Rightarrow> char \<Rightarrow> json_lex_state option" where
  "json_lex_step Outside c =
     (if c = CHR ''N'' \<or> c = CHR ''I'' then None
      else if c = CHR 0x22 then Some Inside
      else Some Outside)"
| "json_lex_step Inside c =
     (if c = CHR 0x5C then Some Escaped
      else if c = CHR 0x22 then Some Outside
      else Some Inside)"
| "json_lex_step Escaped c = Some Inside"

fun json_lex :: "json_lex_state \<Rightarrow> string \<Rightarrow> json_lex_state option" where
  "json_lex q [] = Some q"
| "json_lex q (c # cs) =
     (case json_lex_step q c of None \<Rightarrow> None | Some q' \<Rightarrow> json_lex q' cs)"

definition is_json_text :: "string \<Rightarrow> bool" where
  "is_json_text text = (json_lex Outside text = Some Outside)"

text \<open>A character that leaves the check outside a string literal.\<close>

definition plain :: "char \<Rightarrow> bool" where
  "plain c = (json_lex_step Outside c = Some Outside)"

fun json_castable :: "pyval \<Rightarrow> bool" where
  "json_castable (PStr text) = is_json_text text"
| "json_castable v = True"

definition execute_casts :: "pyval list \<Rightarrow> error + unit" where
  "execute_casts cells =
     (if list_all json_castable cells then Inr ()
      else Inl (MySQLError ''Invalid JSON text in argument 1 to function cast_as_json''))"

text \<open>\<open>ORDER BY col DESC\<close> on a timestamp column and \<open>LIMIT %s\<close>.\<close>

definition order_by_desc :: "('a \<Rightarrow> nat) \<Rightarrow> 'a list \<Rightarrow> 'a list" where
  "order_by_desc col rows = rev (sort_key col rows)"

definition sql_limit :: "int \<Rightarrow> 'a list \<Rightarrow> error + 'a list" where
  "sql_limit n rows =
     (if n < 0 then Inl (MySQLError ''You have an error in your SQL syntax'')
      else Inr (take (nat n) rows))"

text \<open>
  What "newest first, capped at \<open>limit\<close>" says of the rows \<open>out\<close> returned from the
  rows \<open>rows\<close>: they are in descending order of the timestamp column, there are
  \<open>limit\<close> of them or as many as \<open>rows\<close> has, they are rows of \<open>rows\<close>, and no row
  left out is newer than a row returned.
\<close>

definition newest_first :: "('a \<Rightarrow> nat) \<Rightarrow> int \<Rightarrow> 'a list \<Rightarrow> 'a list \<Rightarrow> bool" where
  "newest_first col limit rows out =
     (sorted_wrt (\<lambda>a b. col b \<le> col a) out
      \<and> length out = min (nat limit) (length rows)
      \<and> mset out \<subseteq># mset rows
      \<and> (\<forall>r \<in># mset rows - mset out. \<forall>x \<in> set out. col r \<le> col x))"


section \<open>db/model_serving_service.py\<close>

subsection \<open>ModelsMySQLService\<close>

definition models_insert_row :: "(string \<times> pyval) list \<Rightarrow> error + model_row" where
  "models_insert_row data =
     try_bind (dict_item data ''name'') (\<lambda>v_name.
     try_bind (dict_item data ''version'') (\<lambda>v_version.
     try_bind (dict_item data ''model_type'') (\<lambda>v_model_type.
     try_bind (dict_item data ''artifact_uri'') (\<lambda>v_artifact_uri.
     try_bind (dict_item data ''input_shape'') (\<lambda>v_input_shape.
     try_bind (dict_item data ''output_shape'') (\<lambda>v_output_shape.
       Inr \<lparr> m_model_id = 0,
             m_name = v_name,
             m_version = v_version,
             m_model_type = v_model_type,
             m_artifact_uri = v_artifact_uri,
             m_input_shape = PStr (json_dumps v_input_shape),
             m_output_shape = PStr (json_dumps v_output_shape),
             m_status = dict_get data ''status'' (PStr ''active''),
             m_metrics =
               (if dict_get data ''metrics'' PNone \<noteq> PNone
                then PStr (json_dumps (dict_get data ''metrics'' PNone))
                else PStr ''null''),
             m_sha256 = dict_get data ''sha256'' PNone,
             m_created_at = 0 \<rparr>))))))"

definition ModelsMySQLService_create ::
    "database \<Rightarrow> nat \<Rightarrow> (string \<times> pyval) list \<Rightarrow> (error + int) \<times> database" where
  "ModelsMySQLService_create db now data =
     (case try_bind (get_connection db) (\<lambda>_.
           try_bind (models_insert_row data) (\<lambda>row.
           try_bind (execute_params
                       [m_name row, m_version row, m_model_type row, m_artifact_uri row,
                        m_input_shape row, m_output_shape row, m_status row, m_metrics row,
                        m_sha256 row]) (\<lambda>_.
           try_bind (execute_casts [m_input_shape row, m_output_shape row, m_metrics row])
             (\<lambda>_. Inr row)))) of
        Inl e \<Rightarrow> (Inl e, db)
      | Inr row \<Rightarrow>
          (Inr (models_auto_increment db),
           db\<lparr> models :=
                 models db @ [row\<lparr> m_model_id := models_auto_increment db,
                                   m_created_at := now \<rparr>],
               models_auto_increment := models_auto_increment db + 1 \<rparr>))"

definition ModelsMySQLService_retrieve ::
    "database \<Rightarrow> int option \<Rightarrow> error + model_row list" where
  "ModelsMySQLService_retrieve db model_id =
     try_bind (get_connection db) (\<lambda>_.
       case model_id of
         None \<Rightarrow> Inr (order_by_desc m_created_at (models db))
       | Some mid \<Rightarrow>
           (case filter (\<lambda>r. m_model_id r = mid) (models db) of
              [] \<Rightarrow> Inr []
            | row # _ \<Rightarrow> Inr [row]))"

definition ModelsMySQLService_update :: "error + pyval" where
  "ModelsMySQLService_update = Inl (NotImplementedError ''PUT /models/{id} not implemented'')"

definition ModelsMySQLService_delete ::
    "database \<Rightarrow> int \<Rightarrow> (error + bool) \<times> database" where
  "ModelsMySQLService_delete db model_id =
     (case get_connection db of
        Inl e \<Rightarrow> (Inl e, db)
      | Inr _ \<Rightarrow>
          (Inr (0 < length (filter (\<lambda>r. m_model_id r = model_id) (models db))),
           db\<lparr> models := filter (\<lambda>r. m_model_id r \<noteq> model_id) (models db) \<rparr>))"

subsection \<open>GesturesMySQLService\<close>

definition gestures_insert_row :: "nat \<Rightarrow> (string \<times> pyval) list \<Rightarrow> error + gesture_row" where
  "gestures_insert_row utcnow data =
     try_bind (dict_item data ''landmarks'') (\<lambda>v_landmarks.
       Inr \<lparr> g_gesture_id = 0,
             g_session_id = dict_get data ''session_id'' PNone,
             g_user_id = dict_get data ''user_id'' PNone,
             g_landmarks = PStr (json_dumps v_landmarks),
             g_frame_width = dict_get data ''frame_width'' PNone,
             g_frame_height = dict_get data ''frame_height'' PNone,
             g_source = dict_get data ''source'' (PStr ''web''),
             g_received_at = utcnow,
             g_model_id = PNone,
             g_predicted_label = PNone,
             g_confidence = PNone,
             g_probs = PNone,
             g_processing_time_ms = PNone,
             g_processed_at = None \<rparr>)"

definition GesturesMySQLService_create ::
    "database \<Rightarrow> nat \<Rightarrow> (string \<times> pyval) list \<Rightarrow> (error + int) \<times> database" where
  "GesturesMySQLService_create db utcnow data =
     (case try_bind (get_connection db) (\<lambda>_.
           try_bind (gestures_insert_row utcnow data) (\<lambda>row.
           try_bind (execute_params
                       [g_session_id row, g_user_id row, g_landmarks row, g_frame_width row,
                        g_frame_height row, g_source row]) (\<lambda>_.
           try_bind (execute_casts [g_landmarks row]) (\<lambda>_. Inr row)))) of
        Inl e \<Rightarrow> (Inl e, db)
      | Inr row \<Rightarrow>
          (Inr (gestures_auto_increment db),
           db\<lparr> gestures := gestures db @ [row\<lparr> g_gesture_id := gestures_auto_increment db \<rparr>],
               gestures_auto_increment := gestures_auto_increment db + 1 \<rparr>))"

text \<open>\<open>json.dumps(probs) if probs is not None else "null"\<close>.\<close>

definition probs_param :: "(string \<times> string) list option \<Rightarrow> pyval" where
  "probs_param probs =
     (case probs of
        None \<Rightarrow> PStr ''null''
      | Some d \<Rightarrow> PStr (json_dumps (PDict (map (\<lambda>(k, v). (k, PFloat v)) d))))"

definition GesturesMySQLService_attach_inference ::
    "database \<Rightarrow> nat \<Rightarrow> int \<Rightarrow> int \<Rightarrow> string \<Rightarrow> string \<Rightarrow> (string \<times> string) list option
       \<Rightarrow> int option \<Rightarrow> (error + bool) \<times> database" where
  "GesturesMySQLService_attach_inference db now gesture_id model_id predicted_label confidence
       probs processing_time_ms =
     (case try_bind (get_connection db) (\<lambda>_. execute_casts [probs_param probs]) of
        Inl e \<Rightarrow> (Inl e, db)
      | Inr _ \<Rightarrow>
          (Inr (0 < length (filter (\<lambda>r. g_gesture_id r = gesture_id) (gestures db))),
           db\<lparr> gestures :=
                 map (\<lambda>r. if g_gesture_id r = gesture_id
                          then r\<lparr> g_model_id := PInt model_id,
                                  g_predicted_label := PStr predicted_label,
                                  g_confidence := PFloat confidence,
                                  g_probs := probs_param probs,
                                  g_processing_time_ms := opt_pyval PInt processing_time_ms,
                                  g_processed_at := Some now \<rparr>
                          else r) (gestures db) \<rparr>))"

definition GesturesMySQLService_retrieve ::
    "database \<Rightarrow> string option \<Rightarrow> int \<Rightarrow> error + gesture_row list" where
  "GesturesMySQLService_retrieve db user_id limit =
     try_bind (get_connection db) (\<lambda>_.
       if truthy (opt_pyval PStr user_id)
       then sql_limit limit
              (order_by_desc g_received_at
                 (filter (\<lambda>r. g_user_id r = opt_pyval PStr user_id) (gestures db)))
       else sql_limit limit (order_by_desc g_received_at (gestures db)))"

definition GesturesMySQLService_update :: "error + pyval" where
  "GesturesMySQLService_update =
     Inl (NotImplementedError ''PUT /gestures/{id} not implemented'')"

definition GesturesMySQLService_delete ::
    "database \<Rightarrow> int \<Rightarrow> (error + bool) \<times> database" where
  "GesturesMySQLService_delete db gesture_id =
     (case get_connection db of
        Inl e \<Rightarrow> (Inl e, db)
      | Inr _ \<Rightarrow>
          (Inr (0 < length (filter (\<lambda>r. g_gesture_id r = gesture_id) (gestures db))),
           db\<lparr> gestures := filter (\<lambda>r. g_gesture_id r \<noteq> gesture_id) (gestures db) \<rparr>))"

subsection \<open>PredictionsMySQLService\<close>

definition predictions_insert_row :: "nat \<Rightarrow> (string \<times> pyval) list \<Rightarrow> prediction_row" where
  "predictions_insert_row now data =
     \<lparr> p_prediction_id = 0,
       p_requestor_user_id = dict_get data ''requestor_user_id'' PNone,
       p_session_id = dict_get data ''session_id'' PNone,
       p_model_id = dict_get data ''model_id'' PNone,
       p_status = dict_get data ''status'' (PStr ''queued''),
       p_params =
         PStr (json_dumps (if truthy (dict_get data ''params'' PNone)
                           then dict_get data ''params'' PNone else PDict [])),
       p_created_at = now,
       p_completed_at = None,
       p_output_text = PNone,
       p_confidence = PNone,
       p_latency_ms = PNone,
       p_error_message = PNone \<rparr>"

definition PredictionsMySQLService_create ::
    "database \<Rightarrow> nat \<Rightarrow> (string \<times> pyval) list \<Rightarrow> (error + int) \<times> database" where
  "PredictionsMySQLService_create db now data =
     (case try_bind (get_connection db) (\<lambda>_.
           try_bind (execute_params
                       [p_requestor_user_id (predictions_insert_row now data),
                        p_session_id (predictions_insert_row now data),
                        p_model_id (predictions_insert_row now data),
                        p_status (predictions_insert_row now data),
                        p_params (predictions_insert_row now data)]) (\<lambda>_.
           try_bind (execute_casts [p_params (predictions_insert_row now data)])
             (\<lambda>_. Inr (predictions_insert_row now data)))) of
        Inl e \<Rightarrow> (Inl e, db)
      | Inr row \<Rightarrow>
          (Inr (predictions_auto_increment db),
           db\<lparr> predictions :=
                 predictions db @ [row\<lparr> p_prediction_id := predictions_auto_increment db \<rparr>],
               predictions_auto_increment := predictions_auto_increment db + 1 \<rparr>))"

text \<open>The \<open>SET\<close> list of the statement that \<open>mark_complete\<close> chooses.\<close>

definition mark_complete_set ::
    "nat \<Rightarrow> string \<Rightarrow> string option \<Rightarrow> int option \<Rightarrow> string option
       \<Rightarrow> prediction_row \<Rightarrow> prediction_row" where
  "mark_complete_set now output_text confidence latency_ms error_message r =
     (if truthy (opt_pyval PStr error_message)
      then r\<lparr> p_status := PStr ''failed'',
              p_error_message := opt_pyval PStr error_message,
              p_completed_at := Some now \<rparr>
      else r\<lparr> p_status := PStr ''succeeded'',
              p_output_text := PStr output_text,
              p_confidence := opt_pyval PFloat confidence,
              p_latency_ms := opt_pyval PInt latency_ms,
              p_completed_at := Some now \<rparr>)"

definition PredictionsMySQLService_mark_complete ::
    "database \<Rightarrow> nat \<Rightarrow> int \<Rightarrow> string \<Rightarrow> string option \<Rightarrow> int option \<Rightarrow> string option
       \<Rightarrow> (error + bool) \<times> database" where
  "PredictionsMySQLService_mark_complete db now prediction_id output_text confidence latency_ms
       error_message =
     (case get_connection db of
        Inl e \<Rightarrow> (Inl e, db)
      | Inr _ \<Rightarrow>
          (Inr (0 < length (filter (\<lambda>r. p_prediction_id r = prediction_id) (predictions db))),
           db\<lparr> predictions :=
                 map (\<lambda>r. if p_prediction_id r = prediction_id
                          then mark_complete_set now output_text confidence latency_ms
                                 error_message r
                          else r) (predictions db) \<rparr>))"

definition PredictionsMySQLService_retrieve ::
    "database \<Rightarrow> int option \<Rightarrow> int \<Rightarrow> error + prediction_row list" where
  "PredictionsMySQLService_retrieve db session_id limit =
     try_bind (get_connection db) (\<lambda>_.
       if truthy (opt_pyval PInt session_id)
       then sql_limit limit
              (order_by_desc p_created_at
                 (filter (\<lambda>r. p_session_id r = opt_pyval PInt session_id) (predictions db)))
       else sql_limit limit (order_by_desc p_created_at (predictions db)))"

definition PredictionsMySQLService_update :: "error + pyval" where
  "PredictionsMySQLService_update =
     Inl (NotImplementedError ''PUT /predictions/{id} not implemented'')"

definition PredictionsMySQLService_delete ::
    "database \<Rightarrow> int \<Rightarrow> (error + bool) \<times> database" where
  "PredictionsMySQLService_delete db prediction_id =
     (case get_connection db of
        Inl e \<Rightarrow> (Inl e, db)
      | Inr _ \<Rightarrow>
          (Inr (0 < length (filter (\<lambda>r. p_prediction_id r = prediction_id) (predictions db))),
           db\<lparr> predictions :=
                 filter (\<lambda>r. p_prediction_id r \<noteq> prediction_id) (predictions db) \<rparr>))"


section \<open>models/gesture.py\<close>

text \<open>
  The request models. The fields are typed, so a body is well-formed when it has these
  types; what the field constraints add is checked by \<open>GestureInput_validate\<close>:
  \<open>landmarks\<close> is declared with \<open>min_items=21\<close> and \<open>max_items=21\<close>.
\<close>

record GestureInput =
  landmarks :: "string list list"
  user_id :: "string option"

record ModelInput =
  name :: string
  version :: string
  description :: "string option"
  model_path :: string
  input_shape :: "int list"
  output_classes :: int
  model_type :: string

definition GestureInput_validate :: "GestureInput \<Rightarrow> error + GestureInput" where
  "GestureInput_validate body =
     (if length (landmarks body) < 21
      then Inl (RequestValidationError ''landmarks: List should have at least 21 items'')
      else if 21 < length (landmarks body)
      then Inl (RequestValidationError ''landmarks: List should have at most 21 items'')
      else Inr body)"


section \<open>main.py\<close>

text \<open>
  A handler returns its value, or raises. The framework answers a returned value with the
  route's success status, an \<open>HTTPException\<close> with its own status, a body that fails
  the request model with 422, and any other exception with 500.
\<close>

definition http_status :: "nat \<Rightarrow> error + 'a \<Rightarrow> nat" where
  "http_status ok r =
     (case r of
        Inr _ \<Rightarrow> ok
      | Inl (HTTPException code _) \<Rightarrow> code
      | Inl (RequestValidationError _) \<Rightarrow> 422
      | Inl _ \<Rightarrow> 500)"

text \<open>
  Attribute lookup on a service object: the methods its class defines and the ones it
  inherits from \<open>AbstractBaseMySQLService\<close>. Any other name raises \<open>AttributeError\<close>.
\<close>

definition AbstractBaseMySQLService_attrs :: "string list" where
  "AbstractBaseMySQLService_attrs =
     [''__init__'', ''connect'', ''get_connection'', ''close_connection'',
      ''create'', ''retrieve'', ''update'', ''delete'']"

definition GesturesMySQLService_attrs :: "string list" where
  "GesturesMySQLService_attrs =
     [''create'', ''attach_inference'', ''retrieve'', ''update'', ''delete'']
     @ AbstractBaseMySQLService_attrs"

definition PredictionsMySQLService_attrs :: "string list" where
  "PredictionsMySQLService_attrs =
     [''create'', ''mark_complete'', ''retrieve'', ''update'', ''delete'']
     @ AbstractBaseMySQLService_attrs"

definition getattr :: "string list \<Rightarrow> string \<Rightarrow> error + unit" where
  "getattr attrs n = (if n \<in> set attrs then Inr () else Inl (AttributeError n))"

text \<open>
  \<open>main.py\<close> has no \<open>import json\<close>: where a handler evaluates \<open>json.loads\<close> the
  name is unbound and the evaluation raises \<open>NameError\<close>.
\<close>

definition main_json_loads :: "pyval \<Rightarrow> error + pyval" where
  "main_json_loads v = Inl (NameError ''json'')"

text \<open>
  \<open>if row.get(col): try: row[col] = json.loads(row[col]) except Exception: pass\<close>,
  for a column given by its selector and its update.
\<close>

definition decode_col :: "('r \<Rightarrow> pyval) \<Rightarrow> (pyval \<Rightarrow> 'r \<Rightarrow> 'r) \<Rightarrow> 'r \<Rightarrow> 'r" where
  "decode_col col set_col row =
     (if truthy (col row)
      then (case main_json_loads (col row) of Inl _ \<Rightarrow> row | Inr v \<Rightarrow> set_col v row)
      else row)"

subsection \<open>Gesture routes\<close>

definition list_gestures :: "database \<Rightarrow> string option \<Rightarrow> int \<Rightarrow> error + gesture_row list" where
  "list_gestures db uid limit = GesturesMySQLService_retrieve db uid limit"

text \<open>
  \<open>get_gesture\<close> calls \<open>svc.get_one\<close>. No such method is defined in the repository,
  so what it would compute is the parameter \<open>get_one\<close>; the handler first has to find
  the attribute on the service.
\<close>

definition get_gesture ::
    "(database \<Rightarrow> int \<Rightarrow> error + gesture_row option) \<Rightarrow> database \<Rightarrow> int
       \<Rightarrow> error + gesture_row" where
  "get_gesture get_one db gesture_id =
     try_bind (getattr GesturesMySQLService_attrs ''get_one'') (\<lambda>_.
     try_bind (get_one db gesture_id) (\<lambda>row.
       case row of
         None \<Rightarrow> Inl (HTTPException 404 ''Gesture not found'')
       | Some r \<Rightarrow>
           Inr (decode_col g_probs (\<lambda>v x. x\<lparr> g_probs := v \<rparr>)
                 (decode_col g_landmarks (\<lambda>v x. x\<lparr> g_landmarks := v \<rparr>) r))))"

definition create_gesture ::
    "database \<Rightarrow> nat \<Rightarrow> GestureInput \<Rightarrow> (error + pyval) \<times> database" where
  "create_gesture db utcnow gesture_input =
     (if length (landmarks gesture_input) < 21
      then (Inl (HTTPException 400 ''landmarks must have at least 21 points''), db)
      else
        (case GesturesMySQLService_create db utcnow
                [(''landmarks'', PList (map (\<lambda>p. PList (map PFloat p)) (landmarks gesture_input))),
                 (''user_id'', opt_pyval PStr (user_id gesture_input)),
                 (''source'', PStr ''api'')] of
           (Inl e, db') \<Rightarrow> (Inl e, db')
         | (Inr gid, db') \<Rightarrow> (Inr (PDict [(''gesture_id'', PInt gid)]), db')))"

text \<open>The route: the body is checked against \<open>GestureInput\<close> before the handler runs.\<close>

definition POST_gestures ::
    "database \<Rightarrow> nat \<Rightarrow> GestureInput \<Rightarrow> (error + pyval) \<times> database" where
  "POST_gestures db utcnow body =
     (case GestureInput_validate body of
        Inl e \<Rightarrow> (Inl e, db)
      | Inr gesture_input \<Rightarrow> create_gesture db utcnow gesture_input)"

definition update_gesture ::
    "database \<Rightarrow> int \<Rightarrow> (string \<times> pyval) list \<Rightarrow> (error + pyval) \<times> database" where
  "update_gesture db gesture_id payload =
     (case GesturesMySQLService_update of
        Inl e \<Rightarrow> (Inl e, db)
      | Inr ok \<Rightarrow>
          (if \<not> truthy ok
           then (Inl (HTTPException 404 ''Gesture not found or nothing to update''), db)
           else (Inr (PDict [(''updated'', PBool True)]), db)))"

definition delete_gesture :: "database \<Rightarrow> int \<Rightarrow> (error + pyval) \<times> database" where
  "delete_gesture db gesture_id =
     (case GesturesMySQLService_delete db gesture_id of
        (Inl e, db') \<Rightarrow> (Inl e, db')
      | (Inr ok, db') \<Rightarrow>
          (if \<not> ok then (Inl (HTTPException 404 ''Gesture not found''), db')
           else (Inr (PDict [(''deleted'', PBool True)]), db')))"

subsection \<open>Model routes\<close>

definition get_all_models :: "database \<Rightarrow> error + model_row list" where
  "get_all_models db = ModelsMySQLService_retrieve db None"

definition get_model :: "database \<Rightarrow> int \<Rightarrow> error + model_row" where
  "get_model db model_id =
     try_bind (ModelsMySQLService_retrieve db (Some model_id)) (\<lambda>rows.
       case rows of
         [] \<Rightarrow> Inl (HTTPException 404 ''Model not found'')
       | row # _ \<Rightarrow> Inr row)"

definition register_model ::
    "database \<Rightarrow> nat \<Rightarrow> ModelInput \<Rightarrow> (error + pyval) \<times> database" where
  "register_model db now model_input =
     (case ModelsMySQLService_create db now
             [(''name'', PStr (name model_input)),
              (''version'', PStr (version model_input)),
              (''model_type'', PStr (model_type model_input)),
              (''artifact_uri'',
                 (if truthy (PStr (model_path model_input)) then PStr (model_path model_input)
                  else PStr ''/models/unknown.bin'')),
              (''input_shape'', PList (map PInt (input_shape model_input))),
              (''output_shape'', PList [PInt (output_classes model_input)])] of
        (Inl e, db') \<Rightarrow> (Inl e, db')
      | (Inr mid, db') \<Rightarrow> (Inr (PDict [(''model_id'', PInt mid)]), db'))"

definition delete_model :: "database \<Rightarrow> int \<Rightarrow> (error + pyval) \<times> database" where
  "delete_model db model_id =
     (case ModelsMySQLService_delete db model_id of
        (Inl e, db') \<Rightarrow> (Inl e, db')
      | (Inr ok, db') \<Rightarrow>
          (if \<not> ok then (Inl (HTTPException 404 ''Model not found''), db')
           else (Inr (PDict [(''deleted'', PBool True)]), db')))"

subsection \<open>Prediction routes\<close>

definition list_predictions ::
    "database \<Rightarrow> int option \<Rightarrow> int \<Rightarrow> error + prediction_row list" where
  "list_predictions db sid limit = PredictionsMySQLService_retrieve db sid limit"

definition get_prediction ::
    "(database \<Rightarrow> int \<Rightarrow> error + prediction_row option) \<Rightarrow> database \<Rightarrow> int
       \<Rightarrow> error + prediction_row" where
  "get_prediction get_one db prediction_id =
     try_bind (getattr PredictionsMySQLService_attrs ''get_one'') (\<lambda>_.
     try_bind (get_one db prediction_id) (\<lambda>row.
       case row of
         None \<Rightarrow> Inl (HTTPException 404 ''Prediction not found'')
       | Some r \<Rightarrow> Inr (decode_col p_params (\<lambda>v x. x\<lparr> p_params := v \<rparr>) r)))"

definition create_prediction ::
    "database \<Rightarrow> nat \<Rightarrow> (string \<times> pyval) list \<Rightarrow> (error + pyval) \<times> database" where
  "create_prediction db now payload =
     (case PredictionsMySQLService_create db now
             [(''requestor_user_id'', dict_get payload ''requestor_user_id'' PNone),
              (''session_id'', dict_get payload ''session_id'' PNone),
              (''model_id'', dict_get payload ''model_id'' PNone),
              (''status'', dict_get payload ''status'' (PStr ''queued'')),
              (''params'', dict_get payload ''params'' (PDict []))] of
        (Inl e, db') \<Rightarrow> (Inl e, db')
      | (Inr pid, db') \<Rightarrow>
          (Inr (PDict [(''prediction_id'', PInt pid), (''status'', PStr ''queued'')]), db'))"

definition update_prediction ::
    "database \<Rightarrow> int \<Rightarrow> (string \<times> pyval) list \<Rightarrow> (error + pyval) \<times> database" where
  "update_prediction db prediction_id payload =
     (case PredictionsMySQLService_update of
        Inl e \<Rightarrow> (Inl e, db)
      | Inr ok \<Rightarrow>
          (if \<not> truthy ok
           then (Inl (HTTPException 404 ''Prediction not found or nothing to update''), db)
           else (Inr (PDict [(''updated'', PBool True)]), db)))"

definition delete_prediction :: "database \<Rightarrow> int \<Rightarrow> (error + pyval) \<times> database" where
  "delete_prediction db prediction_id =
     (case PredictionsMySQLService_delete db prediction_id of
        (Inl e, db') \<Rightarrow> (Inl e, db')
      | (Inr ok, db') \<Rightarrow>
          (if \<not> ok then (Inl (HTTPException 404 ''Prediction not found''), db')
           else (Inr (PDict [(''deleted'', PBool True)]), db')))"


section \<open>Concrete stores and requests\<close>

definition empty_db :: database where
  "empty_db =
     \<lparr> reachable = True,
       models = [], models_auto_increment = 1,
       gestures = [], gestures_auto_increment = 1,
       predictions = [], predictions_auto_increment = 1 \<rparr>"

definition body21 :: GestureInput where
  "body21 = \<lparr> landmarks = replicate 21 [''0.5'', ''0.6''], user_id = Some ''u1'' \<rparr>"



definition body20 :: GestureInput where
  "body20 = \<lparr> landmarks = replicate 20 [''0.5'', ''0.6''], user_id = Some ''u1'' \<rparr>"

definition asl_model :: ModelInput where
  "asl_model =
     \<lparr> name = ''ASL'', version = ''v1'', description = None, model_path = ''/m.bin'',
       input_shape = [42], output_classes = 37, model_type = ''classification'' \<rparr>"

definition sample_model :: model_row where
  "sample_model =
     \<lparr> m_model_id = 1, m_name = PStr ''ASL'', m_version = PStr ''v1'',
       m_model_type = PStr ''classification'', m_artifact_uri = PStr ''/m.bin'',
       m_input_shape = PStr ''[42]'', m_output_shape = PStr ''[37]'',
       m_status = PStr ''active'', m_metrics = PStr ''null'', m_sha256 = PNone,
       m_created_at = 10 \<rparr>"

definition one_model_db :: database where
  "one_model_db = empty_db\<lparr> models := [sample_model], models_auto_increment := 2 \<rparr>"

definition sample_gesture :: gesture_row where
  "sample_gesture =
     \<lparr> g_gesture_id = 1, g_session_id = PNone, g_user_id = PStr ''u1'',
       g_landmarks = PStr ''[[0.5, 0.6]]'', g_frame_width = PNone, g_frame_height = PNone,
       g_source = PStr ''api'', g_received_at = 10, g_model_id = PNone,
       g_predicted_label = PNone, g_confidence = PNone, g_probs = PNone,
       g_processing_time_ms = PNone, g_processed_at = None \<rparr>"

definition one_gesture_db :: database where
  "one_gesture_db = empty_db\<lparr> gestures := [sample_gesture], gestures_auto_increment := 2 \<rparr>"

definition sample_prediction :: prediction_row where
  "sample_prediction =
     \<lparr> p_prediction_id = 1, p_requestor_user_id = PStr ''u1'', p_session_id = PInt 7,
       p_model_id = PNone, p_status = PStr ''queued'', p_params = PStr ''{}'',
       p_created_at = 10, p_completed_at = None, p_output_text = PNone,
       p_confidence = PNone, p_latency_ms = PNone, p_error_message = PNone \<rparr>"

definition one_prediction_db :: database where
  "one_prediction_db =
     empty_db\<lparr> predictions := [sample_prediction], predictions_auto_increment := 2 \<rparr>"

definition second_gesture :: gesture_row where
  "second_gesture =
     sample_gesture\<lparr> g_gesture_id := 2, g_user_id := PStr ''u2'', g_received_at := 20 \<rparr>"

definition sample_db :: database where
  "sample_db =
     empty_db\<lparr> gestures := [sample_gesture, second_gesture], gestures_auto_increment := 3,
               predictions := [sample_prediction], predictions_auto_increment := 2 \<rparr>"

text \<open>A model table never holds an identifier that \<open>AUTO_INCREMENT\<close> has yet to give out.\<close>

definition models_wf :: "database \<Rightarrow> bool" where
  "models_wf db = list_all (\<lambda>r. m_model_id r < models_auto_increment db) (models db)"


section \<open>Properties of the store\<close>

subsection \<open>The texts that \<open>json.dumps\<close> writes and the JSON check\<close>

lemma json_lex_append:
  "json_lex q (a @ b) = (case json_lex q a of None \<Rightarrow> None | Some q' \<Rightarrow> json_lex q' b)"
  by (induction a arbitrary: q) (auto split: option.splits)

lemma digit_char_cases:
  assumes "n < 16"
  shows "digit_char n \<in> set ''0123456789abcdef''"
  using assms unfolding digit_char_def by (intro nth_mem) simp

lemma digit_char_outside:
  assumes "n < 16"
  shows "json_lex_step Outside (digit_char n) = Some Outside"
  using digit_char_cases [OF assms] by auto

lemma digit_char_neq:
  assumes "n < 16"
  shows "digit_char n \<noteq> CHR 0x22" and "digit_char n \<noteq> CHR 0x5C"
  using digit_char_cases [OF assms] by auto

lemma of_char_div_16: "(of_char c :: nat) div 16 < 16"
proof -
  have "(of_char c :: nat) < 16 * 16" by simp
  then show ?thesis by (rule less_mult_imp_div_less)
qed

lemma json_lex_escape_char: "json_lex Inside (json_escape_char c) = Some Inside"
  by (simp add: json_escape_char_def digit_char_neq of_char_div_16)

lemma json_lex_escaped: "json_lex Inside (concat (map json_escape_char s)) = Some Inside"
  by (induction s) (simp_all add: json_lex_append json_lex_escape_char)

lemma json_lex_string: "json_lex Outside (json_string s) = Some Outside"
  by (simp add: json_string_def json_lex_append json_lex_escaped)

lemma json_lex_plain: "list_all plain s \<Longrightarrow> json_lex Outside s = Some Outside"
  by (induction s) (simp_all add: plain_def)

lemma plain_digit: "n < 16 \<Longrightarrow> plain (digit_char n)"
  unfolding plain_def by (rule digit_char_outside)

lemma plain_str_nat: "list_all plain (str_nat n)"
proof (induction n rule: str_nat.induct)
  case (1 n)
  show ?case
  proof (cases "n < 10")
    case True
    then have "plain (digit_char n)" by (intro plain_digit) simp
    with True show ?thesis
      by (subst str_nat.simps) simp
  next
    case False
    with 1 have "list_all plain (str_nat (n div 10))" by simp
    moreover have "plain (digit_char (n mod 10))" by (intro plain_digit) simp
    ultimately show ?thesis
      using False by (subst str_nat.simps) simp
  qed
qed

lemma json_lex_str_int: "json_lex Outside (str_int i) = Some Outside"
  by (rule json_lex_plain) (simp add: str_int_def plain_str_nat plain_def)

lemma nonfinite_not_finite: "nonfinite r \<Longrightarrow> \<not> finite_float r"
  unfolding nonfinite_def by (elim disjE) (simp_all add: finite_float_def)

lemma json_lex_nonfinite: "nonfinite r \<Longrightarrow> json_lex Outside (json_dumps (PFloat r)) = None"
  unfolding nonfinite_def by (elim disjE) simp_all

lemma plain_float_char: "c \<in> set ''0123456789.e+-'' \<Longrightarrow> plain c"
  by (auto simp: plain_def)

lemma json_lex_finite:
  assumes "finite_float r"
  shows "json_lex Outside (json_dumps (PFloat r)) = Some Outside"
proof -
  from assms have n: "r \<noteq> ''nan''" "r \<noteq> ''inf''" "r \<noteq> ''-inf''"
    using nonfinite_not_finite [of r] unfolding nonfinite_def by blast+
  have d: "json_dumps (PFloat r) = r"
    by (simp only: json_dumps.simps n if_False)
  from assms have "\<forall>c \<in> set r. plain c"
    unfolding finite_float_def list_all_iff using plain_float_char by blast
  then have "list_all plain r"
    by (simp only: list_all_iff)
  then show ?thesis
    unfolding d by (rule json_lex_plain)
qed

lemma json_lex_float:
  assumes "float_repr r"
  shows "json_lex Outside (json_dumps (PFloat r)) = (if finite_float r then Some Outside else None)"
  using assms json_lex_finite [of r] json_lex_nonfinite [of r] nonfinite_not_finite [of r]
  unfolding float_repr_def
  by (cases "finite_float r") (simp_all del: json_dumps.simps)

lemma json_lex_join:
  assumes "json_lex Outside sep = Some Outside"
    and "list_all (\<lambda>p. json_lex Outside p = Some Outside \<or> json_lex Outside p = None) ps"
  shows "json_lex Outside (join sep ps) =
           (if list_all (\<lambda>p. json_lex Outside p = Some Outside) ps then Some Outside else None)"
  using assms
  by (induction sep ps rule: join.induct) (auto simp: json_lex_append split: option.splits)

lemma json_lex_list:
  assumes "list_all (\<lambda>v. json_lex Outside (json_dumps v) = Some Outside
                        \<or> json_lex Outside (json_dumps v) = None) xs"
  shows "json_lex Outside (json_dumps (PList xs)) =
           (if list_all (\<lambda>v. json_lex Outside (json_dumps v) = Some Outside) xs
            then Some Outside else None)"
proof -
  have "json_lex Outside (join '', '' (map json_dumps xs)) =
          (if list_all (\<lambda>p. json_lex Outside p = Some Outside) (map json_dumps xs)
           then Some Outside else None)"
    using assms by (intro json_lex_join) (simp_all add: list_all_iff)
  then show ?thesis
    by (simp add: json_lex_append list_all_iff)
qed

text \<open>A list of integers is always written as JSON.\<close>

lemma is_json_text_ints: "is_json_text (json_dumps (PList (map PInt xs)))"
  unfolding is_json_text_def
  by (subst json_lex_list) (simp_all add: list_all_iff json_lex_str_int)

lemma json_lex_point:
  assumes "list_all float_repr p"
  shows "json_lex Outside (json_dumps (PList (map PFloat p))) =
           (if list_all finite_float p then Some Outside else None)"
proof -
  have "list_all (\<lambda>v. json_lex Outside (json_dumps v) = Some Outside
                        \<or> json_lex Outside (json_dumps v) = None) (map PFloat p)"
    using assms json_lex_float by (auto simp: list_all_iff simp del: json_dumps.simps)
  from json_lex_list [OF this] assms json_lex_float show ?thesis
    by (auto simp: list_all_iff simp del: json_dumps.simps)
qed

text \<open>
  The landmarks of a request are written as JSON exactly when every coordinate is
  finite.
\<close>

lemma is_json_text_landmarks:
  assumes "list_all (list_all float_repr) lms"
  shows "is_json_text (json_dumps (PList (map (\<lambda>p. PList (map PFloat p)) lms))) =
           list_all (list_all finite_float) lms"
proof -
  have "list_all (\<lambda>v. json_lex Outside (json_dumps v) = Some Outside
                        \<or> json_lex Outside (json_dumps v) = None)
          (map (\<lambda>p. PList (map PFloat p)) lms)"
    using assms json_lex_point by (auto simp: list_all_iff simp del: json_dumps.simps)
  from json_lex_list [OF this] assms json_lex_point show ?thesis
    unfolding is_json_text_def
    by (auto simp: list_all_iff simp del: json_dumps.simps)
qed

lemma finite_landmarks_float_repr:
  "list_all (list_all finite_float) lms \<Longrightarrow> list_all (list_all float_repr) lms"
  by (auto simp: list_all_iff float_repr_def)

subsection \<open>The tables\<close>

lemma filter_absent:
  "list_all (\<lambda>r. f r \<noteq> (k::int)) rows \<Longrightarrow>
     filter (\<lambda>r. f r = k) rows = [] \<and> filter (\<lambda>r. f r \<noteq> k) rows = rows"
  by (induction rows) auto

lemma filter_deleted:
  "list_all (\<lambda>r. f r \<noteq> (k::int)) (filter (\<lambda>r. f r \<noteq> k) rows)"
  by (induction rows) auto

lemma models_delete_absent:
  assumes "reachable db" and "list_all (\<lambda>r. m_model_id r \<noteq> mid) (models db)"
  shows "ModelsMySQLService_delete db mid = (Inr False, db)"
  using assms filter_absent [of m_model_id mid "models db"]
  by (simp add: ModelsMySQLService_delete_def get_connection_def)

lemma models_delete_repeat:
  assumes "reachable db" and "list_all (\<lambda>r. m_model_id r \<noteq> mid) (models db)"
  shows "((\<lambda>s. snd (ModelsMySQLService_delete s mid)) ^^ n) db = db"
  using assms by (induction n) (simp_all add: models_delete_absent)

lemma models_delete_present:
  assumes "reachable db" and "\<not> list_all (\<lambda>r. m_model_id r \<noteq> mid) (models db)"
  shows "fst (ModelsMySQLService_delete db mid) = Inr True"
proof -
  from assms(2) obtain r where "r \<in> set (models db)" "m_model_id r = mid"
    by (auto simp: list_all_iff)
  then have "filter (\<lambda>r. m_model_id r = mid) (models db) \<noteq> []"
    by (auto simp: filter_empty_conv)
  with assms(1) show ?thesis
    by (simp add: ModelsMySQLService_delete_def get_connection_def)
qed

lemma models_delete_post:
  assumes "reachable db"
  shows "reachable (snd (ModelsMySQLService_delete db mid))
       \<and> list_all (\<lambda>r. m_model_id r \<noteq> mid) (models (snd (ModelsMySQLService_delete db mid)))"
  using assms filter_deleted [of m_model_id mid "models db"]
  by (simp add: ModelsMySQLService_delete_def get_connection_def)

lemma delete_model_unfold:
  "delete_model db mid =
     (case fst (ModelsMySQLService_delete db mid) of
        Inl e \<Rightarrow> (Inl e, snd (ModelsMySQLService_delete db mid))
      | Inr ok \<Rightarrow>
          (if ok then (Inr (PDict [(''deleted'', PBool True)]), snd (ModelsMySQLService_delete db mid))
           else (Inl (HTTPException 404 ''Model not found''), snd (ModelsMySQLService_delete db mid))))"
  by (cases "ModelsMySQLService_delete db mid") (auto simp: delete_model_def split: sum.splits)

lemma mark_complete_predictions:
  "reachable db \<Longrightarrow>
     predictions (snd (PredictionsMySQLService_mark_complete db now pid out conf lat err)) =
       map (\<lambda>r. if p_prediction_id r = pid then mark_complete_set now out conf lat err r else r)
         (predictions db)"
  by (simp add: PredictionsMySQLService_mark_complete_def get_connection_def)

lemma predictions_create_ok:
  assumes "PredictionsMySQLService_create db now data = (Inr pid, db')"
  shows "pid = predictions_auto_increment db
       \<and> predictions db' =
           predictions db @ [(predictions_insert_row now data)\<lparr> p_prediction_id := pid \<rparr>]"
  using assms
  by (auto simp: PredictionsMySQLService_create_def try_bind_def split: sum.splits)

lemma gestures_create_ok:
  assumes "GesturesMySQLService_create db utcnow data = (Inr gid, db')"
  shows "gid = gestures_auto_increment db
       \<and> (\<exists>row. gestures_insert_row utcnow data = Inr row
              \<and> gestures db' = gestures db @ [row\<lparr> g_gesture_id := gid \<rparr>])"
  using assms
  by (auto simp: GesturesMySQLService_create_def try_bind_def split: sum.splits)

text \<open>
  What the handler stores once its own check has passed and the coordinates are finite:
  the landmarks as JSON text, the user, the source \<open>api\<close> and the service's clock.
\<close>

lemma create_gesture_21:
  assumes "reachable db" and "21 \<le> length (landmarks body)"
    and "list_all (list_all finite_float) (landmarks body)"
  shows "create_gesture db utcnow body =
     (Inr (PDict [(''gesture_id'', PInt (gestures_auto_increment db))]),
      db\<lparr> gestures := gestures db @
            [\<lparr> g_gesture_id = gestures_auto_increment db,
               g_session_id = PNone,
               g_user_id = opt_pyval PStr (user_id body),
               g_landmarks =
                 PStr (json_dumps (PList (map (\<lambda>p. PList (map PFloat p)) (landmarks body)))),
               g_frame_width = PNone,
               g_frame_height = PNone,
               g_source = PStr ''api'',
               g_received_at = utcnow,
               g_model_id = PNone,
               g_predicted_label = PNone,
               g_confidence = PNone,
               g_probs = PNone,
               g_processing_time_ms = PNone,
               g_processed_at = None \<rparr>],
          gestures_auto_increment := gestures_auto_increment db + 1 \<rparr>)"
proof -
  have u: "sql_param (opt_pyval PStr (user_id body))"
    by (cases "user_id body") simp_all
  have j: "is_json_text
             (json_dumps (PList (map (\<lambda>p. PList (map PFloat p)) (landmarks body))))"
    using assms(3) is_json_text_landmarks [OF finite_landmarks_float_repr [OF assms(3)]]
    by simp
  show ?thesis
    using assms(1,2) u j
    by (simp add: create_gesture_def GesturesMySQLService_create_def try_bind_def
        get_connection_def gestures_insert_row_def dict_item_def dict_get_def execute_params_def
        execute_casts_def del: json_dumps.simps)
qed


lemma register_model_ok:
  assumes "reachable db"
  shows "register_model db now mi =
     (Inr (PDict [(''model_id'', PInt (models_auto_increment db))]),
      db\<lparr> models := models db @
            [\<lparr> m_model_id = models_auto_increment db,
               m_name = PStr (name mi),
               m_version = PStr (version mi),
               m_model_type = PStr (model_type mi),
               m_artifact_uri =
                 (if model_path mi \<noteq> [] then PStr (model_path mi)
                  else PStr ''/models/unknown.bin''),
               m_input_shape = PStr (json_dumps (PList (map PInt (input_shape mi)))),
               m_output_shape = PStr (json_dumps (PList [PInt (output_classes mi)])),
               m_status = PStr ''active'',
               m_metrics = PStr ''null'',
               m_sha256 = PNone,
               m_created_at = now \<rparr>],
          models_auto_increment := models_auto_increment db + 1 \<rparr>)"
proof -
  have i: "is_json_text (json_dumps (PList (map PInt (input_shape mi))))"
    by (rule is_json_text_ints)
  have o: "is_json_text (json_dumps (PList [PInt (output_classes mi)]))"
    using is_json_text_ints [of "[output_classes mi]"] by simp
  have n: "is_json_text ''null''"
    by (simp add: is_json_text_def)
  show ?thesis
    using assms i o n
    by (simp add: register_model_def ModelsMySQLService_create_def try_bind_def
        get_connection_def models_insert_row_def dict_item_def dict_get_def execute_params_def
        execute_casts_def del: json_dumps.simps)
qed

lemma filter_fresh:
  "list_all (\<lambda>r. f r < (k::int)) rows \<Longrightarrow> filter (\<lambda>r. f r = k) rows = []"
  by (induction rows) auto

lemma str_int_42: "str_int 42 = ''42''"
  by code_simp

lemma str_int_37: "str_int 37 = ''37''"
  by code_simp

text \<open>\<open>models_wf\<close> holds of the empty store and is kept by every write to the table.\<close>

lemma models_wf_empty: "models_wf empty_db"
  by (simp add: models_wf_def empty_db_def)

lemma models_wf_create:
  "models_wf db \<Longrightarrow> models_wf (snd (ModelsMySQLService_create db now data))"
  by (auto simp: models_wf_def ModelsMySQLService_create_def list_all_iff split: sum.splits)

lemma models_wf_delete:
  "models_wf db \<Longrightarrow> models_wf (snd (ModelsMySQLService_delete db mid))"
  by (auto simp: models_wf_def ModelsMySQLService_delete_def list_all_iff split: sum.splits)

lemma sorted_desc_order_by_desc:
  "sorted_wrt (\<lambda>a b. col b \<le> col a) (order_by_desc col rows)"
proof -
  have "sorted (map col (sort_key col rows))" by simp
  then have "sorted_wrt (\<lambda>a b. col a \<le> col b) (sort_key col rows)"
    by (simp add: sorted_map)
  then show ?thesis
    by (simp add: order_by_desc_def sorted_wrt_rev)
qed

lemma mset_order_by_desc: "mset (order_by_desc col rows) = mset rows"
  by (simp add: order_by_desc_def)

lemma sorted_wrt_take: "sorted_wrt P xs \<Longrightarrow> sorted_wrt P (take n xs)"
  by (induction xs arbitrary: n) (auto simp: take_Cons' dest: in_set_takeD)

lemma mset_take_subseteq: "mset (take n xs) \<subseteq># mset xs"
proof -
  have "mset xs = mset (take n xs) + mset (drop n xs)"
    by (metis append_take_drop_id mset_append)
  then show ?thesis by simp
qed

lemma limited_rows:
  assumes "sql_limit limit (order_by_desc col rows) = Inr out"
  shows "sorted_wrt (\<lambda>a b. col b \<le> col a) out
       \<and> length out = min (nat limit) (length rows)
       \<and> mset out \<subseteq># mset rows"
proof -
  from assms have o: "out = take (nat limit) (order_by_desc col rows)"
    by (auto simp: sql_limit_def split: if_splits)
  have "mset (take (nat limit) (order_by_desc col rows)) \<subseteq># mset (order_by_desc col rows)"
    by (rule mset_take_subseteq)
  then have "mset out \<subseteq># mset rows"
    by (simp add: o mset_order_by_desc)
  moreover have "length out = min (nat limit) (length rows)"
    by (simp add: o order_by_desc_def min.commute)
  moreover have "sorted_wrt (\<lambda>a b. col b \<le> col a) out"
    unfolding o by (rule sorted_wrt_take) (rule sorted_desc_order_by_desc)
  ultimately show ?thesis by simp
qed


text \<open>The rows that \<open>LIMIT\<close> cuts off are no newer than the rows that are returned.\<close>

lemma limited_rows_newest:
  assumes "sql_limit limit (order_by_desc col rows) = Inr out"
  shows "\<forall>r \<in># mset rows - mset out. \<forall>x \<in> set out. col r \<le> col x"
proof -
  let ?xs = "order_by_desc col rows"
  from assms have o: "out = take (nat limit) ?xs"
    by (auto simp: sql_limit_def split: if_splits)
  have "mset rows = mset (take (nat limit) ?xs) + mset (drop (nat limit) ?xs)"
    by (metis append_take_drop_id mset_append mset_order_by_desc)
  then have d: "mset rows - mset (take (nat limit) ?xs) = mset (drop (nat limit) ?xs)"
    by simp
  have "sorted_wrt (\<lambda>a b. col b \<le> col a) (take (nat limit) ?xs @ drop (nat limit) ?xs)"
    by (simp add: sorted_desc_order_by_desc)
  then have "\<forall>x \<in> set (take (nat limit) ?xs). \<forall>r \<in> set (drop (nat limit) ?xs). col r \<le> col x"
    unfolding sorted_wrt_append by blast
  then show ?thesis
    unfolding o d by auto
qed

lemma limited_rows_exist:
  assumes "0 \<le> limit"
  shows "\<exists>out. sql_limit limit (order_by_desc col rows) = Inr out
           \<and> newest_first col limit rows out"
proof -
  from assms have s: "sql_limit limit (order_by_desc col rows) =
                        Inr (take (nat limit) (order_by_desc col rows))"
    by (simp add: sql_limit_def)
  from limited_rows [OF s] limited_rows_newest [OF s] s show ?thesis
    by (simp add: newest_first_def)
qed


section \<open>The claims\<close>

text \<open>
  C1 (the code departs from the claim). \<open>GET /gestures/{id}\<close> and
  \<open>GET /predictions/{id}\<close> are claimed to answer 200 with the row or 404 when it is
  absent, and to fail in no other way. Both handlers call \<open>svc.get_one\<close>, which neither
  service class defines nor inherits: whatever store and identifier they are given, and
  whatever \<open>get_one\<close> would compute, they raise \<open>AttributeError\<close> and the request is
  answered with 500.
\<close>

theorem get_one_missing:
  "get_gesture get_one_g db gesture_id = Inl (AttributeError ''get_one'')
   \<and> get_prediction get_one_p db prediction_id = Inl (AttributeError ''get_one'')
   \<and> http_status 200 (get_gesture get_one_g db gesture_id) = 500
   \<and> http_status 200 (get_prediction get_one_p db prediction_id) = 500"
  by (simp add: get_gesture_def get_prediction_def getattr_def try_bind_def http_status_def
      GesturesMySQLService_attrs_def PredictionsMySQLService_attrs_def
      AbstractBaseMySQLService_attrs_def)

text \<open>
  C2 (amended). \<open>PUT /gestures/{id}\<close> and \<open>PUT /predictions/{id}\<close> answer neither
  200 nor 404: the service's \<open>update\<close> raises \<open>NotImplementedError\<close> whether or not a
  row matches, the handler does not catch it, the store is left as it was and the request
  is answered with 500.
\<close>

theorem update_not_implemented:
  "update_gesture db gesture_id payload =
     (Inl (NotImplementedError ''PUT /gestures/{id} not implemented''), db)
   \<and> update_prediction db prediction_id payload =
     (Inl (NotImplementedError ''PUT /predictions/{id} not implemented''), db)
   \<and> http_status 200 (fst (update_gesture db gesture_id payload)) = 500
   \<and> http_status 200 (fst (update_prediction db prediction_id payload)) = 500"
  by (simp add: update_gesture_def update_prediction_def GesturesMySQLService_update_def
      PredictionsMySQLService_update_def http_status_def)

text \<open>
  C2 as stated fails: gesture 1 is stored and the update is not answered with 200;
  gesture 999 is not stored and the update is not answered with 404.
\<close>

theorem update_gesture_counterexample:
  "g_gesture_id (gestures one_gesture_db ! 0) = 1
   \<and> http_status 200 (fst (update_gesture one_gesture_db 1 [(''predicted_label'', PStr ''A'')]))
       \<noteq> 200
   \<and> http_status 200 (fst (update_gesture one_gesture_db 999 [(''predicted_label'', PStr ''A'')]))
       \<noteq> 404"
  by (simp add: update_gesture_def GesturesMySQLService_update_def http_status_def
      one_gesture_db_def sample_gesture_def)




text \<open>
  C4. \<open>mark_complete\<close> on a stored prediction, with the database reachable: when
  \<open>error_message\<close> is non-empty the row becomes the old row with status \<open>failed\<close>,
  the error message and the completion time, so \<open>output_text\<close>, \<open>confidence\<close> and
  \<open>latency_ms\<close> keep their values; otherwise it becomes the old row with status
  \<open>succeeded\<close>, the output text, confidence, latency and completion time. The new
  status is \<open>failed\<close> exactly when the error message is non-empty and \<open>succeeded\<close>
  exactly when it is not.
\<close>

theorem mark_complete_either_or:
  assumes "reachable db"
    and "i < length (predictions db)"
    and "p_prediction_id (predictions db ! i) = pid"
  shows "(truthy (opt_pyval PStr err) \<longrightarrow>
            predictions (snd (PredictionsMySQLService_mark_complete db now pid out conf lat err)) ! i =
              (predictions db ! i)\<lparr> p_status := PStr ''failed'',
                                     p_error_message := opt_pyval PStr err,
                                     p_completed_at := Some now \<rparr>)
       \<and> (\<not> truthy (opt_pyval PStr err) \<longrightarrow>
            predictions (snd (PredictionsMySQLService_mark_complete db now pid out conf lat err)) ! i =
              (predictions db ! i)\<lparr> p_status := PStr ''succeeded'',
                                     p_output_text := PStr out,
                                     p_confidence := opt_pyval PFloat conf,
                                     p_latency_ms := opt_pyval PInt lat,
                                     p_completed_at := Some now \<rparr>)
       \<and> (p_status (predictions
              (snd (PredictionsMySQLService_mark_complete db now pid out conf lat err)) ! i)
             = PStr ''failed'') = truthy (opt_pyval PStr err)
       \<and> (p_status (predictions
              (snd (PredictionsMySQLService_mark_complete db now pid out conf lat err)) ! i)
             = PStr ''succeeded'') = (\<not> truthy (opt_pyval PStr err))"
  using assms
  by (simp add: mark_complete_predictions mark_complete_set_def)

theorem mark_complete_either_or_witness:
  "reachable one_prediction_db \<and> 0 < length (predictions one_prediction_db)
   \<and> p_prediction_id (predictions one_prediction_db ! 0) = 1
   \<and> predictions (snd (PredictionsMySQLService_mark_complete one_prediction_db 20 1 ''hello''
        (Some ''0.9'') (Some 12) (Some ''boom''))) ! 0 =
       sample_prediction\<lparr> p_status := PStr ''failed'', p_error_message := PStr ''boom'',
                          p_completed_at := Some 20 \<rparr>
   \<and> predictions (snd (PredictionsMySQLService_mark_complete one_prediction_db 20 1 ''hello''
        (Some ''0.9'') (Some 12) (Some []))) ! 0 =
       sample_prediction\<lparr> p_status := PStr ''succeeded'', p_output_text := PStr ''hello'',
                          p_confidence := PFloat ''0.9'', p_latency_ms := PInt 12,
                          p_completed_at := Some 20 \<rparr>"
proof -
  have r: "reachable one_prediction_db"
    by (simp add: one_prediction_db_def empty_db_def)
  have l: "0 < length (predictions one_prediction_db)"
    by (simp add: one_prediction_db_def)
  have p: "p_prediction_id (predictions one_prediction_db ! 0) = 1"
    by (simp add: one_prediction_db_def sample_prediction_def)
  have s: "predictions one_prediction_db ! 0 = sample_prediction"
    by (simp add: one_prediction_db_def)
  show ?thesis
    using r l p
      mark_complete_either_or [OF r l p, of "Some ''boom''" 20 "''hello''" "Some ''0.9''" "Some 12"]
      mark_complete_either_or [OF r l p, of "Some []" 20 "''hello''" "Some ''0.9''" "Some 12"]
    by (simp add: s)
qed

text \<open>
  C5. A \<open>POST /gestures\<close> body with fewer than 21 landmark points is rejected by the
  request model with 422, a 4xx status, and the store is unchanged; the handler's own
  check answers such an input with 400 and leaves the store unchanged as well.
\<close>

theorem short_landmarks_rejected:
  assumes "length (landmarks body) < 21"
  shows "snd (POST_gestures db utcnow body) = db
     \<and> http_status 201 (fst (POST_gestures db utcnow body)) = 422
     \<and> create_gesture db utcnow body =
         (Inl (HTTPException 400 ''landmarks must have at least 21 points''), db)"
  using assms
  by (simp add: POST_gestures_def GestureInput_validate_def create_gesture_def http_status_def)

theorem short_landmarks_rejected_witness:
  "length (landmarks body20) < 21
   \<and> snd (POST_gestures empty_db 0 body20) = empty_db
   \<and> http_status 201 (fst (POST_gestures empty_db 0 body20)) = 422"
  using short_landmarks_rejected [of body20 empty_db 0]
  by (simp add: body20_def)

text \<open>
  C6 (amended). When \<open>POST /predictions\<close> creates a prediction from a body that has no
  \<open>status\<close> key, the new row has status \<open>queued\<close> and the response reports the new
  identifier with status \<open>queued\<close>.
\<close>

theorem create_prediction_default_queued:
  assumes "create_prediction db now payload = (Inr resp, db')"
    and "map_of payload ''status'' = None"
  shows "resp = PDict [(''prediction_id'', PInt (predictions_auto_increment db)),
                       (''status'', PStr ''queued'')]
       \<and> (\<exists>row. predictions db' = predictions db @ [row]
              \<and> p_prediction_id row = predictions_auto_increment db
              \<and> p_status row = PStr ''queued'')"
  using assms
  by (auto simp: create_prediction_def dict_get_def predictions_insert_row_def
      split: prod.splits sum.splits dest!: predictions_create_ok)

theorem create_prediction_default_queued_witness:
  "create_prediction empty_db 5 [(''session_id'', PInt 7)] =
     (Inr (PDict [(''prediction_id'', PInt 1), (''status'', PStr ''queued'')]),
      snd (create_prediction empty_db 5 [(''session_id'', PInt 7)]))
   \<and> map_of [(''session_id'', PInt 7)] ''status'' = None
   \<and> (\<exists>row. predictions (snd (create_prediction empty_db 5 [(''session_id'', PInt 7)])) = [row]
          \<and> p_prediction_id row = 1 \<and> p_status row = PStr ''queued'')"
proof -
  have c: "create_prediction empty_db 5 [(''session_id'', PInt 7)] =
     (Inr (PDict [(''prediction_id'', PInt 1), (''status'', PStr ''queued'')]),
      snd (create_prediction empty_db 5 [(''session_id'', PInt 7)]))"
    by (simp add: create_prediction_def PredictionsMySQLService_create_def try_bind_def
        get_connection_def execute_params_def execute_casts_def is_json_text_def
        predictions_insert_row_def dict_get_def empty_db_def)
  have m: "map_of [(''session_id'', PInt 7)] ''status'' = None"
    by simp
  have e: "\<exists>row. predictions (snd (create_prediction empty_db 5 [(''session_id'', PInt 7)])) = [row]
          \<and> p_prediction_id row = 1 \<and> p_status row = PStr ''queued''"
    using create_prediction_default_queued [OF c m] by (simp add: empty_db_def)
  from c m e show ?thesis by (intro conjI)
qed

text \<open>
  C6 as stated fails: a body with \<open>status\<close> \<open>running\<close> is answered with status
  \<open>queued\<close> while the row that was created has status \<open>running\<close>.
\<close>

theorem create_prediction_status_counterexample:
  "fst (create_prediction empty_db 5 [(''status'', PStr ''running'')]) =
     Inr (PDict [(''prediction_id'', PInt 1), (''status'', PStr ''queued'')])
   \<and> map p_status (predictions (snd (create_prediction empty_db 5 [(''status'', PStr ''running'')])))
       = [PStr ''running'']
   \<and> map p_status (predictions (snd (create_prediction empty_db 5 [(''status'', PStr ''running'')])))
       \<noteq> [PStr ''queued'']"
  by (simp add: create_prediction_def PredictionsMySQLService_create_def try_bind_def
      get_connection_def execute_params_def execute_casts_def is_json_text_def
        predictions_insert_row_def dict_get_def empty_db_def)

text \<open>
  C7 (amended). With the database reachable and the model table well-formed, registering
  a model with \<open>input_shape=[42]\<close> and \<open>output_classes\<close> 37 and then retrieving it by
  the identifier that was returned gives the row whose \<open>input_shape\<close> and
  \<open>output_shape\<close> are the JSON texts \<open>[42]\<close> and \<open>[37]\<close>, the encodings that
  \<open>json.dumps\<close> wrote at registration; the retrieval does not decode them.
\<close>

theorem registered_shapes_retrieved_as_json_text:
  assumes "reachable db" and "models_wf db"
    and "input_shape mi = [42]" and "output_classes mi = 37"
  shows "fst (register_model db now mi) =
           Inr (PDict [(''model_id'', PInt (models_auto_increment db))])
       \<and> (\<exists>row. get_model (snd (register_model db now mi)) (models_auto_increment db) = Inr row
              \<and> m_model_id row = models_auto_increment db
              \<and> m_input_shape row = PStr ''[42]''
              \<and> m_output_shape row = PStr ''[37]''
              \<and> m_input_shape row = PStr (json_dumps (PList [PInt 42]))
              \<and> m_output_shape row = PStr (json_dumps (PList [PInt 37])))"
proof -
  have f: "filter (\<lambda>r. m_model_id r = models_auto_increment db) (models db) = []"
    using assms(2) by (simp add: models_wf_def filter_fresh)
  show ?thesis
    using assms(1,3,4) f
    by (simp add: register_model_ok get_model_def ModelsMySQLService_retrieve_def try_bind_def
        get_connection_def str_int_42 str_int_37)
qed

theorem registered_shapes_retrieved_as_json_text_witness:
  "reachable empty_db \<and> models_wf empty_db
   \<and> input_shape asl_model = [42] \<and> output_classes asl_model = 37
   \<and> fst (register_model empty_db 3 asl_model) = Inr (PDict [(''model_id'', PInt 1)])
   \<and> (\<exists>row. get_model (snd (register_model empty_db 3 asl_model)) 1 = Inr row
          \<and> m_input_shape row = PStr ''[42]'' \<and> m_output_shape row = PStr ''[37]'')"
proof -
  have r: "reachable empty_db" by (simp add: empty_db_def)
  have i: "input_shape asl_model = [42]" by (simp add: asl_model_def)
  have c: "output_classes asl_model = 37" by (simp add: asl_model_def)
  have a: "models_auto_increment empty_db = 1" by (simp add: empty_db_def)
  from registered_shapes_retrieved_as_json_text [OF r models_wf_empty i c, of 3]
  have "fst (register_model empty_db 3 asl_model) = Inr (PDict [(''model_id'', PInt 1)])
   \<and> (\<exists>row. get_model (snd (register_model empty_db 3 asl_model)) 1 = Inr row
          \<and> m_input_shape row = PStr ''[42]'' \<and> m_output_shape row = PStr ''[37]'')"
    unfolding a by blast
  with r models_wf_empty i c show ?thesis by (intro conjI) simp_all
qed

text \<open>
  C7 as stated fails: the retrieved \<open>input_shape\<close> is the string \<open>[42]\<close>, not the list
  \<open>[42]\<close>, and the retrieved \<open>output_shape\<close> is the string \<open>[37]\<close>, not the list.
\<close>

theorem retrieved_shape_counterexample:
  "map_sum id m_input_shape (get_model (snd (register_model empty_db 3 asl_model)) 1)
     = Inr (PStr ''[42]'')
   \<and> map_sum id m_input_shape (get_model (snd (register_model empty_db 3 asl_model)) 1)
     \<noteq> Inr (PList [PInt 42])
   \<and> map_sum id m_output_shape (get_model (snd (register_model empty_db 3 asl_model)) 1)
     = Inr (PStr ''[37]'')
   \<and> map_sum id m_output_shape (get_model (snd (register_model empty_db 3 asl_model)) 1)
     \<noteq> Inr (PList [PInt 37])"
proof -
  have r: "reachable empty_db" by (simp add: empty_db_def)
  show ?thesis
    by (simp add: register_model_ok [OF r] get_model_def ModelsMySQLService_retrieve_def
        try_bind_def get_connection_def)
      (simp add: empty_db_def asl_model_def str_int_42 str_int_37)
qed

text \<open>
  C8. With the database reachable, deleting a model identifier that no row has returns
  false and leaves the store as it was, so every repetition returns false again, and
  \<open>DELETE /models/{id}\<close> answers 404; nothing is raised. Deleting an identifier that a
  row has returns true, and deleting it again returns false and answers 404.
\<close>

theorem delete_absent_not_found:
  assumes "reachable db"
  shows "(list_all (\<lambda>r. m_model_id r \<noteq> mid) (models db) \<longrightarrow>
            (\<forall>n. ModelsMySQLService_delete
                    (((\<lambda>s. snd (ModelsMySQLService_delete s mid)) ^^ n) db) mid = (Inr False, db))
            \<and> delete_model db mid = (Inl (HTTPException 404 ''Model not found''), db)
            \<and> http_status 200 (fst (delete_model db mid)) = 404)
       \<and> (\<not> list_all (\<lambda>r. m_model_id r \<noteq> mid) (models db) \<longrightarrow>
            fst (ModelsMySQLService_delete db mid) = Inr True
            \<and> fst (delete_model db mid) = Inr (PDict [(''deleted'', PBool True)])
            \<and> ModelsMySQLService_delete (snd (ModelsMySQLService_delete db mid)) mid =
                (Inr False, snd (ModelsMySQLService_delete db mid))
            \<and> delete_model (snd (delete_model db mid)) mid =
                (Inl (HTTPException 404 ''Model not found''), snd (delete_model db mid)))"
proof (intro conjI impI allI)
  fix n
  assume a: "list_all (\<lambda>r. m_model_id r \<noteq> mid) (models db)"
  show "ModelsMySQLService_delete
          (((\<lambda>s. snd (ModelsMySQLService_delete s mid)) ^^ n) db) mid = (Inr False, db)"
    using assms a by (simp add: models_delete_repeat models_delete_absent)
next
  assume a: "list_all (\<lambda>r. m_model_id r \<noteq> mid) (models db)"
  show "delete_model db mid = (Inl (HTTPException 404 ''Model not found''), db)"
    using assms a by (simp add: delete_model_unfold models_delete_absent)
  then show "http_status 200 (fst (delete_model db mid)) = 404"
    by (simp add: http_status_def)
next
  assume a: "\<not> list_all (\<lambda>r. m_model_id r \<noteq> mid) (models db)"
  show t: "fst (ModelsMySQLService_delete db mid) = Inr True"
    using assms a by (rule models_delete_present)
  show r: "ModelsMySQLService_delete (snd (ModelsMySQLService_delete db mid)) mid =
          (Inr False, snd (ModelsMySQLService_delete db mid))"
    using models_delete_post [OF assms, of mid] by (simp add: models_delete_absent)
  show "fst (delete_model db mid) = Inr (PDict [(''deleted'', PBool True)])"
    using t by (simp add: delete_model_unfold)
  have s: "snd (delete_model db mid) = snd (ModelsMySQLService_delete db mid)"
    using t by (simp add: delete_model_unfold)
  show "delete_model (snd (delete_model db mid)) mid =
          (Inl (HTTPException 404 ''Model not found''), snd (delete_model db mid))"
    unfolding s using r by (simp add: delete_model_unfold)
qed

theorem delete_absent_not_found_witness:
  "reachable one_model_db
   \<and> delete_model one_model_db 999 = (Inl (HTTPException 404 ''Model not found''), one_model_db)
   \<and> fst (delete_model one_model_db 1) = Inr (PDict [(''deleted'', PBool True)])
   \<and> http_status 200 (fst (delete_model (snd (delete_model one_model_db 1)) 1)) = 404"
proof -
  have r: "reachable one_model_db"
    by (simp add: one_model_db_def empty_db_def)
  have a: "list_all (\<lambda>r. m_model_id r \<noteq> 999) (models one_model_db)"
    by (simp add: one_model_db_def empty_db_def sample_model_def)
  have b: "\<not> list_all (\<lambda>r. m_model_id r \<noteq> 1) (models one_model_db)"
    by (simp add: one_model_db_def empty_db_def sample_model_def)
  show ?thesis
    using r a delete_absent_not_found [OF r, of 999] b delete_absent_not_found [OF r, of 1]
    by (simp add: http_status_def)
qed

text \<open>
  C9 (amended). Every gesture that \<open>POST /gestures\<close> creates is stored with source
  \<open>api\<close>, which the handler passes explicitly: whenever the request succeeds, it has
  added one row, the response carries that row's identifier, and the row's source is
  \<open>api\<close>. \<open>web\<close> is what \<open>GesturesMySQLService.create\<close> stores when it is called
  with data that has no \<open>source\<close> key.
\<close>

theorem api_gesture_source:
  "(\<forall>resp db'. POST_gestures db utcnow body = (Inr resp, db') \<longrightarrow>
      (\<exists>row. gestures db' = gestures db @ [row]
         \<and> resp = PDict [(''gesture_id'', PInt (g_gesture_id row))]
         \<and> g_source row = PStr ''api''))
   \<and> (\<forall>gid db'. GesturesMySQLService_create db utcnow data = (Inr gid, db')
          \<and> map_of data ''source'' = None \<longrightarrow>
        (\<exists>row. gestures db' = gestures db @ [row] \<and> g_gesture_id row = gid
           \<and> g_source row = PStr ''web''))"
proof (intro conjI impI allI)
  fix resp db'
  assume a: "POST_gestures db utcnow body = (Inr resp, db')"
  let ?data = "[(''landmarks'', PList (map (\<lambda>p. PList (map PFloat p)) (landmarks body))),
                (''user_id'', opt_pyval PStr (user_id body)),
                (''source'', PStr ''api'')]"
  from a have c: "create_gesture db utcnow body = (Inr resp, db')"
    by (auto simp: POST_gestures_def GestureInput_validate_def split: if_splits)
  then obtain gid where s: "GesturesMySQLService_create db utcnow ?data = (Inr gid, db')"
    and p: "resp = PDict [(''gesture_id'', PInt gid)]"
    by (auto simp: create_gesture_def split: if_splits prod.splits sum.splits)
  from gestures_create_ok [OF s]
  obtain row where r: "gestures_insert_row utcnow ?data = Inr row"
      "gestures db' = gestures db @ [row\<lparr> g_gesture_id := gid \<rparr>]"
    by auto
  from r(1) have "g_source row = PStr ''api''"
    by (auto simp: gestures_insert_row_def try_bind_def dict_get_def dict_item_def
        simp del: json_dumps.simps)
  with r(2) p show "\<exists>row. gestures db' = gestures db @ [row]
         \<and> resp = PDict [(''gesture_id'', PInt (g_gesture_id row))]
         \<and> g_source row = PStr ''api''"
    by simp
next
  fix gid db'
  assume a: "GesturesMySQLService_create db utcnow data = (Inr gid, db')
               \<and> map_of data ''source'' = None"
  from a gestures_create_ok [of db utcnow data gid db']
  obtain row where r: "gestures_insert_row utcnow data = Inr row"
      "gestures db' = gestures db @ [row\<lparr> g_gesture_id := gid \<rparr>]"
    by auto
  from r(1) a have "g_source row = PStr ''web''"
    by (auto simp: gestures_insert_row_def try_bind_def dict_get_def split: sum.splits)
  with r(2) show "\<exists>row. gestures db' = gestures db @ [row] \<and> g_gesture_id row = gid
               \<and> g_source row = PStr ''web''"
    by simp
qed

theorem api_gesture_source_witness:
  "POST_gestures empty_db 0 body21 =
     (Inr (PDict [(''gesture_id'', PInt 1)]), snd (POST_gestures empty_db 0 body21))
   \<and> (\<exists>row. gestures (snd (POST_gestures empty_db 0 body21)) = [row]
         \<and> g_gesture_id row = 1 \<and> g_source row = PStr ''api'')
   \<and> GesturesMySQLService_create empty_db 0 [(''landmarks'', PList [])] =
       (Inr 1, snd (GesturesMySQLService_create empty_db 0 [(''landmarks'', PList [])]))
   \<and> map_of [(''landmarks'', PList [])] ''source'' = None
   \<and> (\<exists>row. gestures (snd (GesturesMySQLService_create empty_db 0 [(''landmarks'', PList [])]))
           = [row]
         \<and> g_source row = PStr ''web'')"
proof -
  have r: "reachable empty_db" by (simp add: empty_db_def)
  have l: "21 \<le> length (landmarks body21)" by (simp add: body21_def)
  have f: "list_all (list_all finite_float) (landmarks body21)"
    by (simp add: body21_def finite_float_def list_all_iff)
  have v: "GestureInput_validate body21 = Inr body21"
    by (simp add: GestureInput_validate_def body21_def)
  have g: "gestures empty_db = []" by (simp add: empty_db_def)
  have a: "gestures_auto_increment empty_db = 1" by (simp add: empty_db_def)
  have p: "POST_gestures empty_db 0 body21 =
     (Inr (PDict [(''gesture_id'', PInt 1)]), snd (POST_gestures empty_db 0 body21))"
    by (simp add: POST_gestures_def v create_gesture_21 [OF r l f] a del: json_dumps.simps)
  have c: "GesturesMySQLService_create empty_db 0 [(''landmarks'', PList [])] =
            (Inr 1, snd (GesturesMySQLService_create empty_db 0 [(''landmarks'', PList [])]))"
    by (simp add: GesturesMySQLService_create_def try_bind_def get_connection_def
        gestures_insert_row_def dict_item_def dict_get_def execute_params_def execute_casts_def
        is_json_text_def empty_db_def)
  have m: "map_of [(''landmarks'', PList [])] ''source'' = None"
    by simp
  note t = api_gesture_source [of empty_db 0 body21 "[(''landmarks'', PList [])]"]
  from t have t1: "POST_gestures empty_db 0 body21 = (Inr R, D) \<longrightarrow>
      (\<exists>row. gestures D = gestures empty_db @ [row]
         \<and> R = PDict [(''gesture_id'', PInt (g_gesture_id row))]
         \<and> g_source row = PStr ''api'')" for R D
    by blast
  from t have t2: "GesturesMySQLService_create empty_db 0 [(''landmarks'', PList [])] = (Inr G, D)
          \<and> map_of [(''landmarks'', PList [])] ''source'' = None \<longrightarrow>
        (\<exists>row. gestures D = gestures empty_db @ [row] \<and> g_gesture_id row = G
           \<and> g_source row = PStr ''web'')" for G D
    by blast
  from t1 [of "PDict [(''gesture_id'', PInt 1)]" "snd (POST_gestures empty_db 0 body21)"] p
  obtain row where w: "gestures (snd (POST_gestures empty_db 0 body21)) = gestures empty_db @ [row]"
      "PDict [(''gesture_id'', PInt 1)] = PDict [(''gesture_id'', PInt (g_gesture_id row))]"
      "g_source row = PStr ''api''"
    by blast
  from w(2) have "g_gesture_id row = 1" by simp
  with w(1,3) have 1: "\<exists>row. gestures (snd (POST_gestures empty_db 0 body21)) = [row]
         \<and> g_gesture_id row = 1 \<and> g_source row = PStr ''api''"
    by (simp add: g)
  from t2 [of 1 "snd (GesturesMySQLService_create empty_db 0 [(''landmarks'', PList [])])"] c m
  obtain row' where w': "gestures (snd (GesturesMySQLService_create empty_db 0
                                   [(''landmarks'', PList [])])) = gestures empty_db @ [row']"
      "g_source row' = PStr ''web''"
    by blast
  then have 2: "\<exists>row. gestures (snd (GesturesMySQLService_create empty_db 0
                                   [(''landmarks'', PList [])])) = [row]
             \<and> g_source row = PStr ''web''"
    by (simp add: g)
  from p 1 c m 2 show ?thesis by (intro conjI)
qed

text \<open>
  C9 as stated fails: the body carries no source, and the one gesture that
  \<open>POST /gestures\<close> stores has source \<open>api\<close>, not \<open>web\<close>.
\<close>

theorem gesture_source_web_counterexample:
  "map g_source (gestures (snd (POST_gestures empty_db 0 body21))) = [PStr ''api'']
   \<and> map g_source (gestures (snd (POST_gestures empty_db 0 body21))) \<noteq> [PStr ''web'']"
proof -
  have r: "reachable empty_db" by (simp add: empty_db_def)
  have l: "21 \<le> length (landmarks body21)" by (simp add: body21_def)
  have f: "list_all (list_all finite_float) (landmarks body21)"
    by (simp add: body21_def finite_float_def list_all_iff)
  have v: "GestureInput_validate body21 = Inr body21"
    by (simp add: GestureInput_validate_def body21_def)
  have g: "gestures empty_db = []" by (simp add: empty_db_def)
  show ?thesis
    by (simp add: POST_gestures_def v create_gesture_21 [OF r l f] g del: json_dumps.simps)
qed

text \<open>
  C10. \<open>GesturesMySQLService.retrieve\<close> with \<open>user_id\<close> the empty string and
  \<open>PredictionsMySQLService.retrieve\<close> with \<open>session_id\<close> 0 return what the call
  without a filter returns. With the database reachable and \<open>limit\<close> not negative that
  is a list of rows of the whole table, whatever their user or session: newest first,
  \<open>limit\<close> of them or the whole table if it is shorter, and no row left out is newer
  than a row returned. The filter is applied when the argument is truthy: a non-empty
  \<open>user_id\<close> and a non-zero \<open>session_id\<close> return, in the same way, rows of the
  table's rows with that user or session.
\<close>

theorem falsy_filter_retrieves_all:
  "GesturesMySQLService_retrieve db (Some []) limit = GesturesMySQLService_retrieve db None limit
   \<and> PredictionsMySQLService_retrieve db (Some 0) limit =
       PredictionsMySQLService_retrieve db None limit
   \<and> (reachable db \<and> 0 \<le> limit \<longrightarrow>
        (\<exists>out. GesturesMySQLService_retrieve db (Some []) limit = Inr out
            \<and> newest_first g_received_at limit (gestures db) out)
        \<and> (\<exists>out. PredictionsMySQLService_retrieve db (Some 0) limit = Inr out
            \<and> newest_first p_created_at limit (predictions db) out))
   \<and> (reachable db \<and> 0 \<le> limit \<and> u \<noteq> [] \<longrightarrow>
        (\<exists>out. GesturesMySQLService_retrieve db (Some u) limit = Inr out
            \<and> newest_first g_received_at limit
                 (filter (\<lambda>r. g_user_id r = PStr u) (gestures db)) out))
   \<and> (reachable db \<and> 0 \<le> limit \<and> s \<noteq> 0 \<longrightarrow>
        (\<exists>out. PredictionsMySQLService_retrieve db (Some s) limit = Inr out
            \<and> newest_first p_created_at limit
                 (filter (\<lambda>r. p_session_id r = PInt s) (predictions db)) out))"
proof (intro conjI impI)
  show "GesturesMySQLService_retrieve db (Some []) limit =
          GesturesMySQLService_retrieve db None limit"
    by (simp add: GesturesMySQLService_retrieve_def)
  show "PredictionsMySQLService_retrieve db (Some 0) limit =
          PredictionsMySQLService_retrieve db None limit"
    by (simp add: PredictionsMySQLService_retrieve_def)
next
  assume a: "reachable db \<and> 0 \<le> limit"
  then have l: "0 \<le> limit" by simp
  from a limited_rows_exist [OF l, of g_received_at "gestures db"]
  show "\<exists>out. GesturesMySQLService_retrieve db (Some []) limit = Inr out
            \<and> newest_first g_received_at limit (gestures db) out"
    by (simp add: GesturesMySQLService_retrieve_def try_bind_def get_connection_def)
  from a limited_rows_exist [OF l, of p_created_at "predictions db"]
  show "\<exists>out. PredictionsMySQLService_retrieve db (Some 0) limit = Inr out
            \<and> newest_first p_created_at limit (predictions db) out"
    by (simp add: PredictionsMySQLService_retrieve_def try_bind_def get_connection_def)
next
  assume a: "reachable db \<and> 0 \<le> limit \<and> u \<noteq> []"
  then have l: "0 \<le> limit" by simp
  from a limited_rows_exist
         [OF l, of g_received_at "filter (\<lambda>r. g_user_id r = PStr u) (gestures db)"]
  show "\<exists>out. GesturesMySQLService_retrieve db (Some u) limit = Inr out
            \<and> newest_first g_received_at limit
                 (filter (\<lambda>r. g_user_id r = PStr u) (gestures db)) out"
    by (simp add: GesturesMySQLService_retrieve_def try_bind_def get_connection_def)
next
  assume a: "reachable db \<and> 0 \<le> limit \<and> s \<noteq> 0"
  then have l: "0 \<le> limit" by simp
  from a limited_rows_exist
         [OF l, of p_created_at "filter (\<lambda>r. p_session_id r = PInt s) (predictions db)"]
  show "\<exists>out. PredictionsMySQLService_retrieve db (Some s) limit = Inr out
            \<and> newest_first p_created_at limit
                 (filter (\<lambda>r. p_session_id r = PInt s) (predictions db)) out"
    by (simp add: PredictionsMySQLService_retrieve_def try_bind_def get_connection_def)
qed

theorem falsy_filter_retrieves_all_witness:
  "reachable sample_db \<and> (0::int) \<le> 1 \<and> ''u1'' \<noteq> [] \<and> (7::int) \<noteq> 0
   \<and> GesturesMySQLService_retrieve sample_db (Some []) 1 = Inr [second_gesture]
   \<and> GesturesMySQLService_retrieve sample_db None 1 = Inr [second_gesture]
   \<and> newest_first g_received_at 1 (gestures sample_db) [second_gesture]
   \<and> PredictionsMySQLService_retrieve sample_db (Some 0) 1 = Inr [sample_prediction]
   \<and> PredictionsMySQLService_retrieve sample_db None 1 = Inr [sample_prediction]
   \<and> newest_first p_created_at 1 (predictions sample_db) [sample_prediction]
   \<and> GesturesMySQLService_retrieve sample_db (Some ''u1'') 1 = Inr [sample_gesture]
   \<and> PredictionsMySQLService_retrieve sample_db (Some 7) 1 = Inr [sample_prediction]"
proof -
  have r: "reachable sample_db" by (simp add: sample_db_def empty_db_def)
  have g: "GesturesMySQLService_retrieve sample_db (Some []) 1 = Inr [second_gesture]"
    by (simp add: GesturesMySQLService_retrieve_def try_bind_def get_connection_def
        sql_limit_def order_by_desc_def sample_db_def empty_db_def second_gesture_def
        sample_gesture_def)
  have p: "PredictionsMySQLService_retrieve sample_db (Some 0) 1 = Inr [sample_prediction]"
    by (simp add: PredictionsMySQLService_retrieve_def try_bind_def get_connection_def
        sql_limit_def order_by_desc_def sample_db_def empty_db_def)
  have gu: "GesturesMySQLService_retrieve sample_db (Some ''u1'') 1 = Inr [sample_gesture]"
    by (simp add: GesturesMySQLService_retrieve_def try_bind_def get_connection_def
        sql_limit_def order_by_desc_def sample_db_def empty_db_def second_gesture_def
        sample_gesture_def)
  have ps: "PredictionsMySQLService_retrieve sample_db (Some 7) 1 = Inr [sample_prediction]"
    by (simp add: PredictionsMySQLService_retrieve_def try_bind_def get_connection_def
        sql_limit_def order_by_desc_def sample_db_def empty_db_def sample_prediction_def)
  note t = falsy_filter_retrieves_all [of sample_db 1 "''u1''" 7]
  from t g have gn: "GesturesMySQLService_retrieve sample_db None 1 = Inr [second_gesture]"
    by simp
  from t p have pn: "PredictionsMySQLService_retrieve sample_db None 1 = Inr [sample_prediction]"
    by simp
  from t r g have n1: "newest_first g_received_at 1 (gestures sample_db) [second_gesture]"
    by auto
  from t r p have n2: "newest_first p_created_at 1 (predictions sample_db) [sample_prediction]"
    by auto
  from r g gn n1 p pn n2 gu ps show ?thesis
    by (intro conjI) simp_all
qed

end
